theory Spec2Isabelle
  imports Main "HOL-Library.Word" "HOL-Library.Sublist"
begin

section \<open>Command value type (cmd.h, cmd.cc)\<close>

text \<open>
  \<open>cec_logical_address\<close> is an enumeration of libCEC: the bus slots 0..15 and the
  sentinel \<open>CECDEVICE_UNKNOWN\<close>, which libCEC's cectypes.h defines as -1. The code casts
  loop counters to it and indexes address sets with it, so it is an \<open>int\<close> here.
\<close>

type_synonym cec_logical_address = int

definition CECDEVICE_UNKNOWN :: cec_logical_address where
  "CECDEVICE_UNKNOWN = -1"

text \<open>\<open>CEC_OPCODE_NONE\<close> of libCEC's cectypes.h, the default of \<open>cCmd::mCecOpcode\<close>.\<close>

definition CEC_OPCODE_NONE :: int where
  "CEC_OPCODE_NONE = 253"

text \<open>class \<open>cCECDevice\<close>: a 16-bit physical address and two logical addresses.\<close>

record cCECDevice =
  mPhysicalAddress :: "16 word"
  mLogicalAddressDefined :: cec_logical_address
  mLogicalAddressUsed :: cec_logical_address

text \<open>The default constructor of \<open>cCECDevice\<close>.\<close>

definition cCECDevice_default :: cCECDevice where
  "cCECDevice_default =
     \<lparr>mPhysicalAddress = 0,
      mLogicalAddressDefined = CECDEVICE_UNKNOWN,
      mLogicalAddressUsed = CECDEVICE_UNKNOWN\<rparr>"

datatype CECCommand =
    CEC_INVALID
  | CEC_EXIT
  | CEC_KEYRPRESS
  | CEC_MAKEACTIVE
  | CEC_MAKEINACTIVE
  | CEC_POWERON
  | CEC_POWEROFF
  | CEC_VDRKEYPRESS
  | CEC_EXECSHELL
  | CEC_EXECTOGGLE
  | CEC_TEXTVIEWON
  | CEC_RECONNECT
  | CEC_CONNECT
  | CEC_DISCONNECT
  | CEC_COMMAND

text \<open>
  class \<open>cCmd\<close>. \<open>cCmdQueue\<close> is \<open>std::list<cCmd>\<close>, so the two toggle queues make
  the type recursive; the fields keep their order of declaration, except that the
  constructor takes them positionally:
  kind, value, device, shell string, serial, power-on queue, power-off queue, opcode,
  source logical address.
\<close>

datatype cCmd =
  cCmd (mCmd: CECCommand) (mVal: int) (mDevice: cCECDevice) (mExec: string)
       (mSerial: int) (mPoweron: "cCmd list") (mPoweroff: "cCmd list")
       (mCecOpcode: int) (mCecLogicalAddress: cec_logical_address)

type_synonym cCmdQueue = "cCmd list"

text \<open>\<open>cCmd() = default\<close>: every member takes its default member initialiser.\<close>

definition cCmd_default :: cCmd where
  "cCmd_default =
     cCmd CEC_INVALID (-1) cCECDevice_default [] (-1) [] [] CEC_OPCODE_NONE CECDEVICE_UNKNOWN"

text \<open>
  \<open>cCmd(CECCommand cmd, int val = -1, cCECDevice *dev = nullptr, std::string exec = "")\<close>:
  the device is copied only when the pointer is not null.
\<close>

definition cCmd_simple :: "CECCommand \<Rightarrow> int \<Rightarrow> cCECDevice option \<Rightarrow> string \<Rightarrow> cCmd" where
  "cCmd_simple cmd val dev exec =
     cCmd cmd val (case dev of None \<Rightarrow> cCECDevice_default | Some d \<Rightarrow> d) exec
          (-1) [] [] CEC_OPCODE_NONE CECDEVICE_UNKNOWN"

text \<open>\<open>cCmd(CECCommand cmd, const cCECDevice dev, const cCmdQueue poweron, const cCmdQueue poweroff)\<close>.\<close>

definition cCmd_toggle :: "CECCommand \<Rightarrow> cCECDevice \<Rightarrow> cCmdQueue \<Rightarrow> cCmdQueue \<Rightarrow> cCmd" where
  "cCmd_toggle cmd dev poweron poweroff =
     cCmd cmd (-1) dev [] (-1) poweron poweroff CEC_OPCODE_NONE CECDEVICE_UNKNOWN"

text \<open>\<open>cCmd(CECCommand cmd, cec_opcode opcode, cec_logical_address logicaladdress)\<close>.\<close>

definition cCmd_opcode :: "CECCommand \<Rightarrow> int \<Rightarrow> cec_logical_address \<Rightarrow> cCmd" where
  "cCmd_opcode cmd opcode logicaladdress =
     cCmd cmd (-1) cCECDevice_default [] (-1) [] [] opcode logicaladdress"

text \<open>The assignment \<open>cmd.mSerial = serial\<close> on a command object.\<close>

definition set_mSerial :: "int \<Rightarrow> cCmd \<Rightarrow> cCmd" where
  "set_mSerial v c =
     cCmd (mCmd c) (mVal c) (mDevice c) (mExec c) v (mPoweron c) (mPoweroff c)
          (mCecOpcode c) (mCecLogicalAddress c)"

text \<open>The assignment of \<open>cmd.mDevice\<close> (the resolver writes its cache through the reference).\<close>

definition set_mDevice :: "cCECDevice \<Rightarrow> cCmd \<Rightarrow> cCmd" where
  "set_mDevice d c =
     cCmd (mCmd c) (mVal c) d (mExec c) (mSerial c) (mPoweron c) (mPoweroff c)
          (mCecOpcode c) (mCecLogicalAddress c)"

subsection \<open>cCmd::getSerial\<close>

text \<open>
  \<open>getSerial\<close> is a member function with one function-local static counter
  (\<open>static int serial = 1\<close>) and a static mutex held around the whole body. The model
  takes the object and the counter and returns the result, the object after the call and
  the counter after the call. The body reads and writes the counter only. The counter
  stays within 1..10000 (lemma \<open>serial_after_range\<close>), so the C \<open>int\<close> never overflows
  and is an \<open>int\<close> here.
\<close>

definition serial_initial :: int where
  "serial_initial = 1"

definition getSerial :: "cCmd \<Rightarrow> int \<Rightarrow> int \<times> cCmd \<times> int" where
  "getSerial this serial =
     (let serial1 = serial + 1;
          serial2 = (if serial1 > 10000 then 1 else serial1);
          ret = serial2
      in (ret, this, serial2))"

text \<open>
  The lock makes concurrent calls take effect one after the other; \<open>getSerials\<close> is such
  a series of calls, one per command of the list, and returns the serials handed out
  together with the counter left behind. \<open>serial_after n\<close> is the counter after the
  first \<open>n\<close> calls of the process.
\<close>

fun getSerials :: "cCmd list \<Rightarrow> int \<Rightarrow> int list \<times> int" where
  "getSerials [] serial = ([], serial)"
| "getSerials (c # cs) serial =
     (case getSerial c serial of
        (ret, _, serial') \<Rightarrow>
          (case getSerials cs serial' of (rets, serial'') \<Rightarrow> (ret # rets, serial'')))"

fun serial_after :: "nat \<Rightarrow> int" where
  "serial_after 0 = serial_initial"
| "serial_after (Suc n) = snd (snd (getSerial cCmd_default (serial_after n)))"

section \<open>The adapter library and the other collaborators\<close>

text \<open>
  libCEC and VDR are libraries outside the repository. What they answer is a parameter of
  the model: a record \<open>env\<close> holds the answer of every library call the engine makes,
  and every operation that calls the library takes such a record, so the bus may answer
  differently from one operation to the next. The calls the engine makes are recorded, in
  order, in the field \<open>calls\<close> of the engine, and the messages it passes to \<open>Esyslog\<close>,
  \<open>Isyslog\<close> and \<open>Dsyslog\<close> in the field \<open>logs\<close>. \<open>Csyslog\<close> expands to nothing unless
  \<open>VERBOSEDEBUG\<close> is defined, so its messages are left out.
\<close>

datatype cec_power_status =
    CEC_POWER_STATUS_ON
  | CEC_POWER_STATUS_STANDBY
  | CEC_POWER_STATUS_IN_TRANSITION_STANDBY_TO_ON
  | CEC_POWER_STATUS_IN_TRANSITION_ON_TO_STANDBY
  | CEC_POWER_STATUS_UNKNOWN

datatype libcec_alert =
    CEC_ALERT_SERVICE_DEVICE
  | CEC_ALERT_CONNECTION_LOST
  | CEC_ALERT_PERMISSION_ERROR
  | CEC_ALERT_PORT_BUSY
  | CEC_ALERT_PHYSICAL_ADDRESS_ERROR
  | CEC_ALERT_TV_POLL_FAILED
  | CEC_ALERT_other int

datatype request =
    Call_LibCecInitialise
  | Call_UnloadLibCec
  | Call_InitVideoStandalone
  | Call_GetLibInfo
  | Call_DetectAdapters
  | Call_Open
  | Call_Close
  | Call_SetPhysicalAddress
  | Call_GetActiveDevices
  | Call_GetLogicalAddresses
  | Call_GetDevicePhysicalAddress cec_logical_address
  | Call_GetDeviceVendorId cec_logical_address
  | Call_GetDeviceOSDName cec_logical_address
  | Call_GetDevicePowerStatus cec_logical_address
  | Call_PollDevice cec_logical_address
  | Call_PowerOnDevices cec_logical_address
  | Call_StandbyDevices cec_logical_address
  | Call_SetActiveSource
  | Call_SetInactiveView
  | Call_ToString
  | Call_TextViewOn cec_logical_address
  | Call_ActionKeyPress cCmd

datatype logmsg = Elog string | Ilog string | Dlog string

text \<open>
  What a producer can ask of the engine: \<open>PushCmd\<close>, \<open>PushCmdQueue\<close> and \<open>PushWaitCmd\<close>.
\<close>

datatype submission =
    Submit_PushCmd cCmd
  | Submit_PushCmdQueue cCmdQueue
  | Submit_PushWaitCmd cCmd

record env =
  LibCecInitialise_result :: "nat option"
  DetectAdapters_result :: "8 word"
  Open_result :: bool
  SetPhysicalAddress_result :: bool
  GetActiveDevices_result :: "nat \<Rightarrow> bool"
  GetLogicalAddresses_result :: "cec_logical_address \<Rightarrow> bool"
  GetDevicePhysicalAddress_result :: "cec_logical_address \<Rightarrow> 16 word"
  GetDevicePowerStatus_result :: "cec_logical_address \<Rightarrow> nat \<Rightarrow> cec_power_status"
  PollDevice_result :: "cec_logical_address \<Rightarrow> bool"
  PowerOnDevices_result :: "cec_logical_address \<Rightarrow> bool"
  StandbyDevices_result :: "cec_logical_address \<Rightarrow> bool"
  SetActiveSource_result :: bool
  SetInactiveView_result :: bool
  TextViewOn_result :: "cec_logical_address \<Rightarrow> bool"
  CEC_USER_CONTROL_CODE_MAX :: int
  CECtoVDRKey_result :: "int \<Rightarrow> int list"
  GetStartManually_result :: bool
  fork_failed :: bool
  child_exited :: bool
  ExecToggle_submissions :: "cCECDevice \<Rightarrow> cCmdQueue \<Rightarrow> cCmdQueue \<Rightarrow> submission list"
  CECCommand_submissions :: "cCmd \<Rightarrow> submission list"

text \<open>
  \<open>GetDevicePowerStatus_result e addr n\<close> is the status the bus reports at the (n+1)-th
  poll of one wait, so that a device may change its status while the engine waits.
  \<open>DetectAdapters_result\<close> is the value as stored in the \<open>uint8_t mDevicesFound\<close>.
  \<open>fork_failed\<close> is \<open>fork() < 0\<close>, \<open>child_exited\<close> is \<open>waitpid(pid, WNOHANG) == pid\<close>.
  \<open>CEC_USER_CONTROL_CODE_MAX\<close> is a constant of libCEC's cectypes.h.
\<close>

section \<open>The engine: class cCECRemote (cecremote.h)\<close>

text \<open>
  Where the worker thread stands. \<open>Action\<close> first connects (\<open>Prologue\<close>), then runs its
  \<open>while (Running())\<close> loop (\<open>InLoop\<close>); while it is inside the \<open>do ... while\<close> loop of
  \<open>Exec\<close> it is \<open>InExec execcmd\<close>, where \<open>execcmd\<close> is the exec-shell command that
  \<open>Action\<close> is still dispatching; after the loop of \<open>Action\<close> has ended it is
  \<open>Stopped\<close>.
\<close>

datatype worker_pc = NotStarted | Prologue | InLoop | InExec cCmd | Stopped

text \<open>
  The members of \<open>cCECRemote\<close> the engine works with, then the two function-local
  statics (the counter of \<open>cCmd::getSerial\<close> and \<open>lastkey\<close> of \<open>CecKeyPressCallback\<close>),
  the state of the thread (\<open>cThread::Running()\<close> and the place of the worker), and last the
  observations: the library calls made, the log, the keys passed to \<open>cRemote::Put\<close>, the
  commands returned by \<open>WaitCmd\<close> (\<open>popped\<close>) and taken from the exec queue by
  \<open>WaitExec\<close> (\<open>exec_popped\<close>), the commands that reached the line
  \<open>Csyslog("(%d) Action finished")\<close> (\<open>finished\<close>), and the serial published at every
  \<open>mCmdReady.Signal()\<close> (\<open>signalled\<close>).
\<close>

record cCECRemote =
  mCECAdapter :: "nat option"
  mCECLogLevel :: int
  mProcessedSerial :: int
  mDevicesFound :: "8 word"
  mPhysAddress :: "32 word"
  mWorkerQueue :: cCmdQueue
  mExecQueue :: cCmdQueue
  mInExec :: bool
  mDeferredStartup :: bool
  mOnStart :: cCmdQueue
  mOnStop :: cCmdQueue
  mOnManualStart :: cCmdQueue
  getSerial_serial :: int
  lastkey :: int
  running :: bool
  worker :: worker_pc
  calls :: "request list"
  logs :: "logmsg list"
  keys_put :: "int list"
  popped :: "cCmd list"
  exec_popped :: "cCmd list"
  finished :: "cCmd list"
  signalled :: "int list"

text \<open>\<open>CEC_USER_CONTROL_CODE_UNKNOWN\<close> of libCEC's cectypes.h, the first value of \<open>lastkey\<close>.\<close>

definition CEC_USER_CONTROL_CODE_UNKNOWN :: int where
  "CEC_USER_CONTROL_CODE_UNKNOWN = 255"

text \<open>
  The constructor, with the options it copies: the log level, the physical address and the
  three command lists. The adapter pointer starts null, the last processed serial -1.
\<close>

definition cCECRemote_new ::
  "int \<Rightarrow> 32 word \<Rightarrow> cCmdQueue \<Rightarrow> cCmdQueue \<Rightarrow> cCmdQueue \<Rightarrow> cCECRemote" where
  "cCECRemote_new cec_debug physical onStart onStop onManualStart =
     \<lparr>mCECAdapter = None,
      mCECLogLevel = cec_debug,
      mProcessedSerial = -1,
      mDevicesFound = 0,
      mPhysAddress = physical,
      mWorkerQueue = [],
      mExecQueue = [],
      mInExec = False,
      mDeferredStartup = False,
      mOnStart = onStart,
      mOnStop = onStop,
      mOnManualStart = onManualStart,
      getSerial_serial = serial_initial,
      lastkey = CEC_USER_CONTROL_CODE_UNKNOWN,
      running = False,
      worker = NotStarted,
      calls = [],
      logs = [],
      keys_put = [],
      popped = [],
      exec_popped = [],
      finished = [],
      signalled = []\<rparr>"

definition Esyslog :: "string \<Rightarrow> cCECRemote \<Rightarrow> cCECRemote" where
  "Esyslog m s = s\<lparr>logs := logs s @ [Elog m]\<rparr>"

definition Isyslog :: "string \<Rightarrow> cCECRemote \<Rightarrow> cCECRemote" where
  "Isyslog m s = s\<lparr>logs := logs s @ [Ilog m]\<rparr>"

definition Dsyslog :: "string \<Rightarrow> cCECRemote \<Rightarrow> cCECRemote" where
  "Dsyslog m s = s\<lparr>logs := logs s @ [Dlog m]\<rparr>"

definition lib_call :: "request \<Rightarrow> cCECRemote \<Rightarrow> cCECRemote" where
  "lib_call c s = s\<lparr>calls := calls s @ [c]\<rparr>"

subsection \<open>Submission: PushCmd, PushCmdQueue, PushWaitCmd, Reconnect\<close>

definition PushCmd :: "cCmd \<Rightarrow> cCECRemote \<Rightarrow> cCECRemote" where
  "PushCmd cmd s = s\<lparr>mWorkerQueue := mWorkerQueue s @ [cmd]\<rparr>"

definition PushCmdQueue :: "cCmdQueue \<Rightarrow> cCECRemote \<Rightarrow> cCECRemote" where
  "PushCmdQueue cmdList s =
     (if mCECAdapter s = None then Esyslog ''PushCmdQueue CEC Adapter disconnected'' s
      else s\<lparr>mWorkerQueue := foldl (\<lambda>q i. q @ [i]) (mWorkerQueue s) cmdList\<rparr>)"

text \<open>
  \<open>PushWaitCmd\<close> up to the point where it starts to wait: it takes a serial, stores it in
  the command and appends the command to one of the two queues. The wait that follows
  (on \<open>mCmdReady\<close>, until \<open>mProcessedSerial\<close> is the serial or the timeout passes) changes
  nothing in the engine; what the waiting thread can see is the field \<open>mProcessedSerial\<close>.
\<close>

definition PushWaitCmd :: "cCmd \<Rightarrow> cCECRemote \<Rightarrow> cCECRemote" where
  "PushWaitCmd cmd0 s =
     (case getSerial cmd0 (getSerial_serial s) of
        (serial, cmd1, counter) \<Rightarrow>
          let cmd = set_mSerial serial cmd1;
              s1 = s\<lparr>getSerial_serial := counter\<rparr>
          in if (mCmd cmd = CEC_CONNECT \<or> mCmd cmd = CEC_DISCONNECT) \<and> mInExec s1
             then s1\<lparr>mExecQueue := mExecQueue s1 @ [cmd]\<rparr>
             else s1\<lparr>mWorkerQueue := mWorkerQueue s1 @ [cmd]\<rparr>)"

definition Reconnect :: "cCECRemote \<Rightarrow> cCECRemote" where
  "Reconnect s0 =
     (let s = Dsyslog ''cCECRemote::Reconnect'' s0;
          cmd = cCmd_simple CEC_RECONNECT (-1) None []
      in if mInExec s
         then s\<lparr>mExecQueue := cmd # mExecQueue s\<rparr>
         else s\<lparr>mWorkerQueue := cmd # mWorkerQueue s\<rparr>)"

fun submit :: "submission \<Rightarrow> cCECRemote \<Rightarrow> cCECRemote" where
  "submit (Submit_PushCmd cmd) s = PushCmd cmd s"
| "submit (Submit_PushCmdQueue cmdList) s = PushCmdQueue cmdList s"
| "submit (Submit_PushWaitCmd cmd) s = PushWaitCmd cmd s"

definition submit_all :: "submission list \<Rightarrow> cCECRemote \<Rightarrow> cCECRemote" where
  "submit_all subs s = foldl (\<lambda>s x. submit x s) s subs"

subsection \<open>The callbacks registered with libCEC\<close>

text \<open>\<open>CEC_LOG_ERROR\<close> of libCEC's cectypes.h.\<close>

definition CEC_LOG_ERROR :: int where
  "CEC_LOG_ERROR = 1"

datatype callback =
    KeyPress int nat
  | CommandReceived int cec_logical_address cec_logical_address
  | Alert libcec_alert
  | LogMessage int string
  | SourceActivated cec_logical_address nat
  | ConfigurationChanged

definition CecKeyPressCallback :: "env \<Rightarrow> int \<Rightarrow> nat \<Rightarrow> cCECRemote \<Rightarrow> cCECRemote" where
  "CecKeyPressCallback e keycode duration s0 =
     (let s = Dsyslog ''key pressed %02x (%d)'' s0
      in if (keycode \<ge> 0 \<and> keycode \<le> CEC_USER_CONTROL_CODE_MAX e) \<and>
            (duration = 0 \<or> keycode \<noteq> lastkey s)
         then PushCmd (cCmd_simple CEC_KEYRPRESS keycode None []) (s\<lparr>lastkey := keycode\<rparr>)
         else s)"

definition CecCommandCallback ::
  "int \<Rightarrow> cec_logical_address \<Rightarrow> cec_logical_address \<Rightarrow> cCECRemote \<Rightarrow> cCECRemote" where
  "CecCommandCallback opcode initiator destination s =
     (if mCECAdapter s = None
      then Dsyslog ''CEC Command ignored - adapter disconnected'' s
      else PushCmd (cCmd_opcode CEC_COMMAND opcode initiator)
             (Dsyslog ''CEC Command %d : %s Init %d Dest %d'' (lib_call Call_ToString s)))"

definition CecAlertCallback :: "libcec_alert \<Rightarrow> cCECRemote \<Rightarrow> cCECRemote" where
  "CecAlertCallback type s0 =
     (let s = Dsyslog ''CecAlert %d'' s0
      in case type of
           CEC_ALERT_CONNECTION_LOST \<Rightarrow> Reconnect (Esyslog ''Connection lost'' s)
         | CEC_ALERT_TV_POLL_FAILED \<Rightarrow> Isyslog ''TV Poll failed'' s
         | CEC_ALERT_SERVICE_DEVICE \<Rightarrow> Isyslog ''CEC_ALERT_SERVICE_DEVICE'' s
         | CEC_ALERT_PERMISSION_ERROR \<Rightarrow> Isyslog ''CEC_ALERT_PERMISSION_ERROR'' s
         | CEC_ALERT_PORT_BUSY \<Rightarrow> Isyslog ''CEC_ALERT_PORT_BUSY'' s
         | CEC_ALERT_PHYSICAL_ADDRESS_ERROR \<Rightarrow> Isyslog ''CEC_ALERT_PHYSICAL_ADDRESS_ERROR'' s
         | CEC_ALERT_other _ \<Rightarrow> s)"

definition CecLogMessageCallback :: "int \<Rightarrow> string \<Rightarrow> cCECRemote \<Rightarrow> cCECRemote" where
  "CecLogMessageCallback level message s =
     (if and level (mCECLogLevel s) = level
      then (if level = CEC_LOG_ERROR then Esyslog message s else Dsyslog message s)
      else s)"

definition CECSourceActivatedCallback ::
  "cec_logical_address \<Rightarrow> nat \<Rightarrow> cCECRemote \<Rightarrow> cCECRemote" where
  "CECSourceActivatedCallback address activated s = s"

definition CECConfigurationCallback :: "cCECRemote \<Rightarrow> cCECRemote" where
  "CECConfigurationCallback s = s"

fun run_callback :: "env \<Rightarrow> callback \<Rightarrow> cCECRemote \<Rightarrow> cCECRemote" where
  "run_callback e (KeyPress keycode duration) s = CecKeyPressCallback e keycode duration s"
| "run_callback e (CommandReceived opcode initiator destination) s =
     CecCommandCallback opcode initiator destination s"
| "run_callback e (Alert type) s = CecAlertCallback type s"
| "run_callback e (LogMessage level message) s = CecLogMessageCallback level message s"
| "run_callback e (SourceActivated address activated) s =
     CECSourceActivatedCallback address activated s"
| "run_callback e ConfigurationChanged s = CECConfigurationCallback s"

subsection \<open>Device resolution: cCECRemote::getLogical\<close>

text \<open>
  The loop \<open>for (int j = 0; j < 16; j++)\<close> of \<open>getLogical\<close>, over the slots still to
  visit. It returns \<open>Some a\<close> in the first component when the loop body returned \<open>a\<close>
  (the exact match), together with the device, the local \<open>found\<close> and the engine as they
  are when the loop is left.
\<close>

fun getLogical_scan ::
  "env \<Rightarrow> nat list \<Rightarrow> cCECDevice \<Rightarrow> cec_logical_address \<Rightarrow> cCECRemote
     \<Rightarrow> cec_logical_address option \<times> cCECDevice \<times> cec_logical_address \<times> cCECRemote" where
  "getLogical_scan e [] dev found s = (None, dev, found, s)"
| "getLogical_scan e (j # js) dev found s =
     (if GetActiveDevices_result e j
      then let logical_addres = int j;
               s1 = lib_call (Call_GetDevicePhysicalAddress logical_addres) s
           in if mPhysicalAddress dev = GetDevicePhysicalAddress_result e logical_addres
              then let dev1 = dev\<lparr>mLogicalAddressUsed := logical_addres\<rparr>;
                       s2 = Dsyslog ''Mapping Physical %04x->Logical %d'' s1
                   in if mLogicalAddressDefined dev1 = logical_addres
                      then (Some logical_addres, dev1, logical_addres, s2)
                      else getLogical_scan e js dev1 logical_addres s2
              else getLogical_scan e js dev found s1
      else getLogical_scan e js dev found s)"

text \<open>
  \<open>getLogical\<close> takes the device by reference: the result is the address, the device
  after the call and the engine after the call.
\<close>

definition getLogical ::
  "env \<Rightarrow> cCECDevice \<Rightarrow> cCECRemote \<Rightarrow> cec_logical_address \<times> cCECDevice \<times> cCECRemote" where
  "getLogical e dev s =
     (if mCECAdapter s = None
      then (CECDEVICE_UNKNOWN, dev, Esyslog ''getLogical CEC Adapter disconnected'' s)
      else if mLogicalAddressUsed dev \<noteq> CECDEVICE_UNKNOWN
      then (mLogicalAddressUsed dev, dev, s)
      else
        case (if mPhysicalAddress dev \<noteq> 0
              then getLogical_scan e [0..<16] dev CECDEVICE_UNKNOWN (lib_call Call_GetActiveDevices s)
              else (None, dev, CECDEVICE_UNKNOWN, s)) of
          (Some a, dev1, found, s1) \<Rightarrow> (a, dev1, s1)
        | (None, dev1, found, s1) \<Rightarrow>
            if found \<noteq> CECDEVICE_UNKNOWN then (found, dev1, s1)
            else if mLogicalAddressDefined dev1 = CECDEVICE_UNKNOWN
            then (CECDEVICE_UNKNOWN, dev1,
                  Esyslog ''No fallback logical address for %04x configured'' s1)
            else
              let s2 = lib_call Call_GetLogicalAddresses s1
              in if GetLogicalAddresses_result e (mLogicalAddressDefined dev1)
                 then (CECDEVICE_UNKNOWN, dev1,
                       Esyslog ''Logical address of physical %04x is the VDR'' s2)
                 else
                   let s3 = lib_call (Call_PollDevice (mLogicalAddressDefined dev1)) s2
                   in if \<not> PollDevice_result e (mLogicalAddressDefined dev1)
                      then (CECDEVICE_UNKNOWN, dev1, Esyslog ''Logical address not available'' s3)
                      else (mLogicalAddressDefined dev1,
                            dev1\<lparr>mLogicalAddressUsed := mLogicalAddressDefined dev1\<rparr>, s3))"

subsection \<open>cCECRemote::WaitForPowerStatus\<close>

text \<open>
  The \<open>do ... while\<close> loop; \<open>cnt\<close> is the local counter at the start of a pass. The
  100 ms wait before each poll is not part of the state.
\<close>

function WaitForPowerStatus_loop ::
  "env \<Rightarrow> cec_logical_address \<Rightarrow> cec_power_status \<Rightarrow> nat \<Rightarrow> cCECRemote \<Rightarrow> cCECRemote" where
  "WaitForPowerStatus_loop e addr newstatus cnt s =
     (let s1 = lib_call (Call_GetDevicePowerStatus addr) s;
          status = GetDevicePowerStatus_result e addr cnt;
          cnt1 = cnt + 1
      in if status \<noteq> newstatus \<and> cnt1 < 50 \<and> status \<noteq> CEC_POWER_STATUS_UNKNOWN
         then WaitForPowerStatus_loop e addr newstatus cnt1 s1
         else s1)"
  by pat_completeness auto
termination
  by (relation "measure (\<lambda>(e, addr, newstatus, cnt, s). 50 - cnt)") auto

text \<open>The equation of the loop is applied by hand, never by the simplifier on its own.\<close>

declare WaitForPowerStatus_loop.simps [simp del]

definition WaitForPowerStatus ::
  "env \<Rightarrow> cec_logical_address \<Rightarrow> cec_power_status \<Rightarrow> cCECRemote \<Rightarrow> cCECRemote" where
  "WaitForPowerStatus e addr newstatus s = WaitForPowerStatus_loop e addr newstatus 0 s"

subsection \<open>Startup, Connect, Disconnect, Stop\<close>

text \<open>
  \<open>cThread::Start()\<close> of VDR starts the thread function \<open>Action\<close> unless the thread is
  running already.
\<close>

definition Start :: "cCECRemote \<Rightarrow> cCECRemote" where
  "Start s =
     (if worker s = NotStarted \<or> worker s = Stopped
      then s\<lparr>running := True, worker := Prologue\<rparr>
      else s)"

text \<open>\<open>cThread::Cancel(-1)\<close> of VDR only clears the flag that \<open>Running()\<close> returns.\<close>

definition Cancel :: "cCECRemote \<Rightarrow> cCECRemote" where
  "Cancel s = s\<lparr>running := False\<rparr>"

definition Startup :: "env \<Rightarrow> cCECRemote \<Rightarrow> cCECRemote" where
  "Startup e s0 =
     (let s = Start s0
      in if mCECAdapter s = None
         then s\<lparr>mDeferredStartup := True\<rparr>
         else let s1 = (if GetStartManually_result e then PushCmdQueue (mOnManualStart s) s else s)
              in PushCmdQueue (mOnStart s1) s1)"

text \<open>The loop of \<open>Connect\<close> that logs every active device.\<close>

fun Connect_devices :: "env \<Rightarrow> nat list \<Rightarrow> cCECRemote \<Rightarrow> cCECRemote" where
  "Connect_devices e [] s = s"
| "Connect_devices e (j # js) s =
     (if GetActiveDevices_result e j
      then Connect_devices e js
             (Dsyslog ''   %15.15s %d@%04x %15.15s %15.15s''
               (lib_call Call_ToString
                 (lib_call Call_ToString
                   (lib_call (Call_GetDeviceOSDName (int j))
                     (lib_call (Call_GetDeviceVendorId (int j))
                       (lib_call (Call_GetDevicePhysicalAddress (int j)) s))))))
      else Connect_devices e js s)"

definition Connect :: "env \<Rightarrow> cCECRemote \<Rightarrow> cCECRemote" where
  "Connect e s0 =
     (let s = Dsyslog ''cCECRemote::Connect'' s0
      in if mCECAdapter s \<noteq> None then s
         else
           let s1 = (lib_call Call_LibCecInitialise s)\<lparr>mCECAdapter := LibCecInitialise_result e\<rparr>
           in if mCECAdapter s1 = None then Esyslog ''Can not initialize libcec'' s1
              else
                let s2 = Dsyslog ''LibCEC %s''
                           (lib_call Call_GetLibInfo (lib_call Call_InitVideoStandalone s1));
                    s3 = (lib_call Call_DetectAdapters s2)
                           \<lparr>mDevicesFound := DetectAdapters_result e\<rparr>
                in if mDevicesFound s3 \<le> 0
                   then (lib_call Call_UnloadLibCec (Esyslog ''No adapter found'' s3))
                          \<lparr>mCECAdapter := None, mDevicesFound := 0\<rparr>
                   else
                     let s4 = foldl (\<lambda>s i. Dsyslog ''Device %d path: %s port: %s'' s) s3
                                [0..<unat (mDevicesFound s3)];
                         s5 = lib_call Call_Open s4
                     in if \<not> Open_result e
                        then (lib_call Call_UnloadLibCec
                               (Esyslog ''Unable to open the device on port %s'' s5))
                               \<lparr>mCECAdapter := None, mDevicesFound := 0\<rparr>
                        else
                          let s6 = (if mPhysAddress s5 \<noteq> 0
                                    then let s' = lib_call Call_SetPhysicalAddress
                                                    (Dsyslog ''Set new physical address %d'' s5)
                                         in if \<not> SetPhysicalAddress_result e
                                            then Esyslog ''Unable to set new physical address %d'' s'
                                            else s'
                                    else s5);
                              s7 = Connect_devices e [0..<16] (lib_call Call_GetActiveDevices s6)
                          in if mDeferredStartup s7
                             then Startup e (s7\<lparr>mDeferredStartup := False\<rparr>)
                             else s7)"

definition Disconnect :: "cCECRemote \<Rightarrow> cCECRemote" where
  "Disconnect s0 =
     (let s = (if mCECAdapter s0 \<noteq> None
               then lib_call Call_UnloadLibCec
                      (lib_call Call_Close (lib_call Call_SetInactiveView s0))
               else s0)
      in Dsyslog ''cCECRemote::Disconnect'' (s\<lparr>mCECAdapter := None\<rparr>))"

definition Stop :: "cCECRemote \<Rightarrow> cCECRemote" where
  "Stop s0 =
     (let s = PushCmdQueue (mOnStop s0) (Dsyslog ''Executing onStop'' s0)
      in PushWaitCmd (cCmd_simple CEC_EXIT (-1) None []) s)"

subsection \<open>Helpers of the dispatcher whose bodies are not in the sources\<close>

text \<open>
  Four member functions that \<open>Action\<close> calls are declared in cecremote.h but their
  bodies are missing. What they do is taken from the spec, and what the spec leaves open
  is a parameter (a field of \<open>env\<close>).
\<close>

text \<open>
  Modelled from the spec: the body of \<open>cCECRemote::TextViewOn\<close> is missing. The spec:
  text-view-on issues the wake/switch-input bus request. It is one recorded request whose
  answer is a parameter.
\<close>

definition TextViewOn :: "env \<Rightarrow> cec_logical_address \<Rightarrow> cCECRemote \<Rightarrow> bool \<times> cCECRemote" where
  "TextViewOn e address s = (TextViewOn_result e address, lib_call (Call_TextViewOn address) s)"

text \<open>
  Modelled from the spec: the body of \<open>cCECRemote::ActionKeyPress\<close> is missing. The
  spec: vdr-key-press forwards a key to the target device and delegates to the adapter.
  It is one recorded request.
\<close>

definition ActionKeyPress :: "cCmd \<Rightarrow> cCECRemote \<Rightarrow> cCECRemote" where
  "ActionKeyPress cmd s = lib_call (Call_ActionKeyPress cmd) s"

text \<open>
  Modelled from the spec: the body of \<open>cCECRemote::ExecToggle\<close> is missing. The spec:
  exec-toggle replays one of the two sub-queues by resubmitting each contained command
  through the normal synchronous path. It is a series of submissions to the engine; which
  series, given the device and the two queues, is a parameter.
\<close>

definition ExecToggle ::
  "env \<Rightarrow> cCECDevice \<Rightarrow> cCmdQueue \<Rightarrow> cCmdQueue \<Rightarrow> cCECRemote \<Rightarrow> cCECRemote" where
  "ExecToggle e dev poweron poweroff s =
     submit_all (ExecToggle_submissions e dev poweron poweroff) s"

text \<open>
  Modelled from the spec: the body of \<open>cCECRemote::CECCommand\<close> is missing. The spec:
  the generic bus command executes the command list of every matching handler and
  triggers menu actions, which submit commands in turn. It is a series of submissions to
  the engine; which series, given the command, is a parameter.
\<close>

definition CECCommand :: "env \<Rightarrow> cCmd \<Rightarrow> cCECRemote \<Rightarrow> cCECRemote" where
  "CECCommand e cmd s = submit_all (CECCommand_submissions e cmd) s"

subsection \<open>The worker: WaitCmd, Action, WaitExec, Exec\<close>

text \<open>
  \<open>WaitCmd\<close> blocks while the worker queue is empty (\<open>None\<close>: the worker stays where it
  is) and otherwise takes the front command.
\<close>

definition WaitCmd :: "cCECRemote \<Rightarrow> (cCmd \<times> cCECRemote) option" where
  "WaitCmd s =
     (case mWorkerQueue s of
        [] \<Rightarrow> None
      | cmd # rest \<Rightarrow> Some (cmd, s\<lparr>mWorkerQueue := rest, popped := popped s @ [cmd]\<rparr>))"

text \<open>
  The lines after the \<open>switch\<close>, the same in \<open>Action\<close> and in \<open>Exec\<close>: the command has
  been worked off; its serial, unless -1, is stored in \<open>mProcessedSerial\<close> and
  \<open>mCmdReady\<close> is signalled.
\<close>

definition Action_finished :: "cCmd \<Rightarrow> cCECRemote \<Rightarrow> cCECRemote" where
  "Action_finished cmd s0 =
     (let s = s0\<lparr>finished := finished s0 @ [cmd]\<rparr>
      in if mSerial cmd \<noteq> -1
         then s\<lparr>mProcessedSerial := mSerial cmd, signalled := signalled s @ [mSerial cmd]\<rparr>
         else s)"

text \<open>
  The start of \<open>Exec\<close>: the fork. When it fails \<open>Exec\<close> returns at once; otherwise the
  parent sets \<open>mInExec\<close> and enters its loop.
\<close>

definition Exec_enter :: "env \<Rightarrow> cCmd \<Rightarrow> cCECRemote \<Rightarrow> cCECRemote" where
  "Exec_enter e execcmd s0 =
     (let s = Dsyslog ''Execute script %s'' s0
      in if fork_failed e then Esyslog ''fork failed'' s
         else s\<lparr>mInExec := True, worker := InExec execcmd\<rparr>)"

text \<open>
  The \<open>switch\<close> of \<open>Action\<close>. The local \<open>cmd\<close> is passed to \<open>getLogical\<close> by
  reference, so the command after the switch is returned with the engine.
\<close>

definition Action_switch :: "env \<Rightarrow> cCmd \<Rightarrow> cCECRemote \<Rightarrow> cCmd \<times> cCECRemote" where
  "Action_switch e cmd s =
     (case mCmd cmd of
        CEC_KEYRPRESS \<Rightarrow>
          if mVal cmd \<ge> 0 \<and> mVal cmd \<le> CEC_USER_CONTROL_CODE_MAX e
          then (cmd, foldl (\<lambda>s k. Dsyslog ''   Put(%d)'' (s\<lparr>keys_put := keys_put s @ [k]\<rparr>))
                       (Isyslog ''Key Press %d'' s) (CECtoVDRKey_result e (mVal cmd)))
          else (cmd, s)
      | CEC_POWERON \<Rightarrow>
          if mCECAdapter s \<noteq> None
          then (case getLogical e (mDevice cmd) (Isyslog ''Power on'' s) of
                  (addr, dev, s1) \<Rightarrow>
                    if addr \<noteq> CECDEVICE_UNKNOWN \<and>
                       \<not> PowerOnDevices_result e addr
                    then (set_mDevice dev cmd,
                          Esyslog ''PowerOnDevice failed for %s''
                            (lib_call Call_ToString (lib_call (Call_PowerOnDevices addr) s1)))
                    else (set_mDevice dev cmd,
                          WaitForPowerStatus e addr CEC_POWER_STATUS_ON
                            (if addr \<noteq> CECDEVICE_UNKNOWN
                             then lib_call (Call_PowerOnDevices addr) s1 else s1)))
          else (cmd, Esyslog ''PowerOnDevice ignored'' s)
      | CEC_POWEROFF \<Rightarrow>
          if mCECAdapter s \<noteq> None
          then (case getLogical e (mDevice cmd) (Isyslog ''Power off'' s) of
                  (addr, dev, s1) \<Rightarrow>
                    if addr \<noteq> CECDEVICE_UNKNOWN \<and>
                       \<not> StandbyDevices_result e addr
                    then (set_mDevice dev cmd,
                          Esyslog ''StandbyDevices failed for %s''
                            (lib_call Call_ToString (lib_call (Call_StandbyDevices addr) s1)))
                    else (set_mDevice dev cmd,
                          WaitForPowerStatus e addr CEC_POWER_STATUS_STANDBY
                            (if addr \<noteq> CECDEVICE_UNKNOWN
                             then lib_call (Call_StandbyDevices addr) s1 else s1)))
          else (cmd, Esyslog ''StandbyDevices ignored'' s)
      | CEC_TEXTVIEWON \<Rightarrow>
          if mCECAdapter s \<noteq> None
          then (case getLogical e (mDevice cmd) (Isyslog ''Textviewon'' s) of
                  (addr, dev, s1) \<Rightarrow>
                    if addr \<noteq> CECDEVICE_UNKNOWN
                    then (case TextViewOn e addr s1 of
                            (r, s2) \<Rightarrow>
                              if r
                              then (set_mDevice dev cmd,
                                    Esyslog ''TextViewOn failed for %s'' (lib_call Call_ToString s2))
                              else (set_mDevice dev cmd, s2))
                    else (set_mDevice dev cmd, s1))
          else (cmd, Esyslog ''Textviewon ignored'' s)
      | CEC_MAKEACTIVE \<Rightarrow>
          if mCECAdapter s \<noteq> None
          then let s1 = lib_call Call_SetActiveSource (Isyslog ''Make active'' s)
               in if \<not> SetActiveSource_result e
                  then (cmd, Esyslog ''SetActiveSource failed'' s1) else (cmd, s1)
          else (cmd, Esyslog ''SetActiveSource ignored'' s)
      | CEC_MAKEINACTIVE \<Rightarrow>
          if mCECAdapter s \<noteq> None
          then let s1 = lib_call Call_SetInactiveView (Isyslog ''Make inactive'' s)
               in if \<not> SetInactiveView_result e
                  then (cmd, Esyslog ''SetInactiveView failed'' s1) else (cmd, s1)
          else (cmd, Esyslog ''SetInactiveView ignored'' s)
      | CEC_VDRKEYPRESS \<Rightarrow>
          if mCECAdapter s \<noteq> None
          then (cmd, ActionKeyPress cmd s)
          else (cmd, Esyslog ''Keypress ignored'' s)
      | CEC_EXECSHELL \<Rightarrow> (cmd, Exec_enter e cmd (Isyslog ''Exec: %s'' s))
      | CEC_EXIT \<Rightarrow> (cmd, Disconnect (Cancel (Isyslog ''cCECRemote exit worker thread'' s)))
      | CEC_RECONNECT \<Rightarrow> (cmd, Connect e (Disconnect (Isyslog ''cCECRemote reconnect'' s)))
      | CEC_CONNECT \<Rightarrow> (cmd, Connect e (Isyslog ''cCECRemote connect'' s))
      | CEC_DISCONNECT \<Rightarrow> (cmd, Disconnect (Isyslog ''cCECRemote disconnect'' s))
      | CEC_COMMAND \<Rightarrow> (cmd, CECCommand e cmd (Dsyslog ''cCECRemote command %d'' s))
      | CEC_EXECTOGGLE \<Rightarrow>
          (cmd, ExecToggle e (mDevice cmd) (mPoweron cmd) (mPoweroff cmd)
                  (Isyslog ''cCECRemote exec_toggle'' s))
      | CEC_INVALID \<Rightarrow> (cmd, Esyslog ''Unknown action %d Val %d'' s))"

text \<open>
  The end of a pass of the loop of \<open>Action\<close>: publish the serial, then test \<open>Running()\<close>;
  when it is false the loop ends and the thread function returns.
\<close>

definition Action_after :: "cCmd \<Rightarrow> cCECRemote \<Rightarrow> cCECRemote" where
  "Action_after cmd s0 =
     (let s = Action_finished cmd s0
      in if running s then s\<lparr>worker := InLoop\<rparr>
         else (Dsyslog ''cCECRemote stop worker thread'' s)\<lparr>worker := Stopped\<rparr>)"

text \<open>
  One pass of \<open>while (Running())\<close> in \<open>Action\<close>. When the switch has entered the loop of
  \<open>Exec\<close>, the rest of the pass is done when that loop is left (\<open>Exec_iteration\<close>).
\<close>

definition Action_iteration :: "env \<Rightarrow> cCECRemote \<Rightarrow> cCECRemote" where
  "Action_iteration e s =
     (case WaitCmd s of
        None \<Rightarrow> s
      | Some (cmd0, s1) \<Rightarrow>
          (case Action_switch e cmd0 (Dsyslog ''(%d) Action %d Val %d'' s1) of
             (cmd, s2) \<Rightarrow>
               (case worker s2 of
                  InExec execcmd \<Rightarrow> s2
                | _ \<Rightarrow> Action_after cmd s2)))"

text \<open>The part of \<open>Action\<close> before its loop (the start-up delay is not part of the state).\<close>

definition Action_prologue :: "env \<Rightarrow> cCECRemote \<Rightarrow> cCECRemote" where
  "Action_prologue e s0 =
     (let s = Dsyslog ''cCECRemote start worker thread'' (Connect e s0)
      in if running s then s\<lparr>worker := InLoop\<rparr>
         else (Dsyslog ''cCECRemote stop worker thread'' s)\<lparr>worker := Stopped\<rparr>)"

text \<open>
  \<open>WaitExec\<close>: while the exec queue is empty it waits, and returns a new exit command
  once the child has ended; otherwise it takes the front command.
\<close>

definition WaitExec :: "env \<Rightarrow> cCECRemote \<Rightarrow> (cCmd \<times> cCECRemote) option" where
  "WaitExec e s =
     (case mExecQueue s of
        [] \<Rightarrow> if child_exited e
              then Some (cCmd_simple CEC_EXIT (-1) None [], Dsyslog ''  Script exit with %d'' s)
              else None
      | cmd # rest \<Rightarrow> Some (cmd, s\<lparr>mExecQueue := rest, exec_popped := exec_popped s @ [cmd]\<rparr>))"

text \<open>The \<open>switch\<close> in the loop of \<open>Exec\<close>.\<close>

definition Exec_switch :: "env \<Rightarrow> cCmd \<Rightarrow> cCECRemote \<Rightarrow> cCECRemote" where
  "Exec_switch e cmd s =
     (case mCmd cmd of
        CEC_EXIT \<Rightarrow> Dsyslog ''cCECRemote Exec script stopped'' s
      | CEC_RECONNECT \<Rightarrow> Connect e (Disconnect (Dsyslog ''cCECRemote Exec reconnect'' s))
      | CEC_CONNECT \<Rightarrow> Connect e (Dsyslog ''cCECRemote Exec connect'' s)
      | CEC_DISCONNECT \<Rightarrow> Disconnect (Dsyslog ''cCECRemote Exec disconnect'' s)
      | _ \<Rightarrow> Esyslog ''cCECRemote Exec Unexpected action %d Val %d'' s)"

text \<open>
  One pass of the \<open>do ... while (cmd.mCmd != CEC_EXIT)\<close> loop of \<open>Exec\<close>. On an exit
  command the loop ends, \<open>mInExec\<close> is cleared, \<open>Exec\<close> returns into \<open>Action\<close>, and the
  pass of \<open>Action\<close> that dispatched \<open>execcmd\<close> is completed.
\<close>

definition Exec_iteration :: "env \<Rightarrow> cCmd \<Rightarrow> cCECRemote \<Rightarrow> cCECRemote" where
  "Exec_iteration e execcmd s =
     (case WaitExec e s of
        None \<Rightarrow> s
      | Some (cmd, s1) \<Rightarrow>
          let s2 = Action_finished cmd (Exec_switch e cmd (Dsyslog ''(%d) ExecAction %d Val %d'' s1))
          in if mCmd cmd \<noteq> CEC_EXIT then s2
             else Action_after execcmd (s2\<lparr>mInExec := False\<rparr>))"

definition worker_step :: "env \<Rightarrow> cCECRemote \<Rightarrow> cCECRemote" where
  "worker_step e s =
     (case worker s of
        NotStarted \<Rightarrow> s
      | Prologue \<Rightarrow> Action_prologue e s
      | InLoop \<Rightarrow> Action_iteration e s
      | InExec execcmd \<Rightarrow> Exec_iteration e execcmd s
      | Stopped \<Rightarrow> s)"

subsection \<open>Runs of the engine\<close>

text \<open>
  The threads of the process take turns: a producer submits, libCEC calls a callback, the
  host starts or stops the engine, or the worker does its next step. A step is one whole
  operation: the queues are read and written under their mutexes only, and the other
  members are written by the worker alone, so the model follows the engine at the grain
  of its operations. A step of the worker is one pass of the loop it is in; a pass that
  finds its queue empty (and, inside \<open>Exec\<close>, the child still running) leaves the
  engine as it is. A run is a finite series of steps.
\<close>

datatype event =
    Producer submission
  | Library env callback
  | Host_Startup env
  | Host_Stop
  | Worker env

fun step :: "event \<Rightarrow> cCECRemote \<Rightarrow> cCECRemote" where
  "step (Producer x) s = submit x s"
| "step (Library e cb) s = run_callback e cb s"
| "step (Host_Startup e) s = Startup e s"
| "step Host_Stop s = Stop s"
| "step (Worker e) s = worker_step e s"

fun run :: "event list \<Rightarrow> cCECRemote \<Rightarrow> cCECRemote" where
  "run [] s = s"
| "run (ev # evs) s = run evs (step ev s)"

section \<open>Notions used to state the properties\<close>

text \<open>
  The slots among \<open>js\<close> that are active and whose topology address is the device's
  (\<open>physical_matches\<close>), the physical-address queries a scan of \<open>js\<close> makes when it is
  not cut short (\<open>queried\<close>), and \<open>n\<close> copies of the log line of a physical match.
\<close>

definition physical_matches :: "env \<Rightarrow> cCECDevice \<Rightarrow> nat list \<Rightarrow> nat list" where
  "physical_matches e dev js =
     filter (\<lambda>j. GetActiveDevices_result e j \<and>
                 GetDevicePhysicalAddress_result e (int j) = mPhysicalAddress dev) js"

definition queried :: "env \<Rightarrow> nat list \<Rightarrow> request list" where
  "queried e js =
     map (\<lambda>j. Call_GetDevicePhysicalAddress (int j)) (filter (GetActiveDevices_result e) js)"

definition scan_log :: "nat \<Rightarrow> logmsg list" where
  "scan_log n = replicate n (Dlog ''Mapping Physical %04x->Logical %d'')"

subsection \<open>Concrete surroundings and engines\<close>

text \<open>
  \<open>env_silent\<close>: a bus of 16 slots on which nothing is active and nothing answers, a
  library that cannot be initialised, a child that is still running, handlers that submit
  nothing. \<open>env_bus\<close>: the library opens, the TV is at slot 0, and one device at topology
  address 2.0.0.0 holds the two slots 4 and 5; it is in standby and switches on at the
  third poll.
\<close>

definition env_silent :: env where
  "env_silent =
     \<lparr>LibCecInitialise_result = None,
      DetectAdapters_result = 0,
      Open_result = False,
      SetPhysicalAddress_result = False,
      GetActiveDevices_result = (\<lambda>j. False),
      GetLogicalAddresses_result = (\<lambda>a. False),
      GetDevicePhysicalAddress_result = (\<lambda>a. 0),
      GetDevicePowerStatus_result = (\<lambda>a n. CEC_POWER_STATUS_UNKNOWN),
      PollDevice_result = (\<lambda>a. False),
      PowerOnDevices_result = (\<lambda>a. False),
      StandbyDevices_result = (\<lambda>a. False),
      SetActiveSource_result = False,
      SetInactiveView_result = False,
      TextViewOn_result = (\<lambda>a. False),
      CEC_USER_CONTROL_CODE_MAX = 150,
      CECtoVDRKey_result = (\<lambda>k. []),
      GetStartManually_result = False,
      fork_failed = False,
      child_exited = False,
      ExecToggle_submissions = (\<lambda>dev poweron poweroff. []),
      CECCommand_submissions = (\<lambda>cmd. [])\<rparr>"

definition env_bus :: env where
  "env_bus =
     env_silent
       \<lparr>LibCecInitialise_result := Some 1,
        DetectAdapters_result := 1,
        Open_result := True,
        GetActiveDevices_result := (\<lambda>j. j = 0 \<or> j = 4 \<or> j = 5),
        GetLogicalAddresses_result := (\<lambda>a. a = 1),
        GetDevicePhysicalAddress_result := (\<lambda>a. if a = 4 \<or> a = 5 then 8192 else 0),
        GetDevicePowerStatus_result :=
          (\<lambda>a n. if n < 2 then CEC_POWER_STATUS_STANDBY else CEC_POWER_STATUS_ON),
        PollDevice_result := (\<lambda>a. a = 0 \<or> a = 4 \<or> a = 5),
        PowerOnDevices_result := (\<lambda>a. True),
        StandbyDevices_result := (\<lambda>a. True),
        SetActiveSource_result := True,
        SetInactiveView_result := True\<rparr>"

text \<open>
  A device at topology address 2.0.0.0 with the given configured logical address, not yet
  resolved.
\<close>

definition device_2000 :: "cec_logical_address \<Rightarrow> cCECDevice" where
  "device_2000 defined =
     \<lparr>mPhysicalAddress = 8192, mLogicalAddressDefined = defined,
      mLogicalAddressUsed = CECDEVICE_UNKNOWN\<rparr>"

text \<open>
  A new engine, and an engine whose worker is in its loop with the adapter open (handle 1)
  and both queues empty.
\<close>

definition engine_new :: cCECRemote where
  "engine_new = cCECRemote_new 0 0 [] [] []"

definition engine_connected :: cCECRemote where
  "engine_connected = engine_new\<lparr>mCECAdapter := Some 1, running := True, worker := InLoop\<rparr>"

subsection \<open>Relations between two states of the engine\<close>

text \<open>
  \<open>grows s t\<close>: from \<open>s\<close> to \<open>t\<close> the worker took nothing from the worker queue, and
  that queue only grew at its back. \<open>quiet s t\<close>: moreover nothing was taken from the
  exec queue, nothing was published, and the worker did not enter the loop of \<open>Exec\<close>. \<open>keeps s t\<close>: the commands taken by \<open>WaitCmd\<close> only grew at the end,
  and the commands taken or still queued in \<open>s\<close> are, in the same order, among those
  taken or still queued in \<open>t\<close>.
\<close>

definition grows :: "cCECRemote \<Rightarrow> cCECRemote \<Rightarrow> bool" where
  "grows s s' \<longleftrightarrow> popped s' = popped s \<and> prefix (mWorkerQueue s) (mWorkerQueue s')"

definition quiet :: "cCECRemote \<Rightarrow> cCECRemote \<Rightarrow> bool" where
  "quiet s s' \<longleftrightarrow>
     grows s s' \<and> finished s' = finished s \<and> signalled s' = signalled s \<and>
     mProcessedSerial s' = mProcessedSerial s \<and> exec_popped s' = exec_popped s \<and>
     (\<forall>x. worker s' = InExec x \<longrightarrow> worker s = InExec x)"



subsection \<open>Published serials\<close>



subsection \<open>Asynchronous submissions of a run\<close>



subsection \<open>Concrete commands and runs\<close>

text \<open>
  A power-on command for a device that the silent bus cannot resolve, numbered marker
  commands, an exec-shell command with serial 5, an engine whose worker is inside the loop
  of \<open>Exec\<close> for it, and two runs: one in which markers are submitted while the
  connection is lost, and one from the start of the plugin to the dispatch of the power-on
  command.
\<close>

definition poweron_unresolved :: cCmd where
  "poweron_unresolved = cCmd_simple CEC_POWERON (-1) (Some (device_2000 4)) []"






section \<open>Properties of the serial allocator\<close>

lemma serial_after_range: "1 \<le> serial_after n \<and> serial_after n \<le> 10000"
  by (induction n) (simp_all add: serial_initial_def getSerial_def Let_def)

lemma getSerial_closed_form:
  assumes "1 \<le> serial" "serial \<le> 10000"
  shows "fst (getSerial c serial) = serial mod 10000 + 1"
proof (cases "serial = 10000")
  case True
  then show ?thesis by (simp add: getSerial_def Let_def)
next
  case False
  with assms have "serial mod 10000 = serial" by simp
  with False assms show ?thesis by (simp add: getSerial_def Let_def)
qed

lemma getSerial_counter: "snd (snd (getSerial c serial)) = fst (getSerial c serial)"
  by (simp add: getSerial_def Let_def)

lemma getSerial_range:
  assumes "1 \<le> serial" "serial \<le> 10000"
  shows "1 \<le> fst (getSerial c serial) \<and> fst (getSerial c serial) \<le> 10000"
  using assms by (simp add: getSerial_def Let_def)

lemma getSerials_nth:
  assumes "1 \<le> serial" "serial \<le> 10000" "i < length cs"
  shows "fst (getSerials cs serial) ! i = (serial + int i) mod 10000 + 1"
  using assms
proof (induction cs arbitrary: serial i)
  case Nil
  then show ?case by simp
next
  case (Cons c cs)
  obtain ret this' serial' where g: "getSerial c serial = (ret, this', serial')"
    by (cases "getSerial c serial") auto
  obtain rets serial'' where gs: "getSerials cs serial' = (rets, serial'')"
    by (cases "getSerials cs serial'") auto
  have ret: "ret = serial mod 10000 + 1"
    using getSerial_closed_form [OF Cons.prems(1,2), of c] g by simp
  have s': "serial' = ret"
    using getSerial_counter [of c serial] g by simp
  have r: "1 \<le> serial'" "serial' \<le> 10000"
    using getSerial_range [OF Cons.prems(1,2), of c] g s' by simp_all
  show ?case
  proof (cases i)
    case 0
    then show ?thesis using g gs ret by simp
  next
    case (Suc k)
    then have "k < length cs" using Cons.prems(3) by simp
    from Cons.IH [OF r this] gs
    have "rets ! k = (serial' + int k) mod 10000 + 1" by simp
    moreover have "(serial' + int k) mod 10000 = (serial + int (Suc k)) mod 10000"
    proof -
      have "(serial' + int k) mod 10000 = ((serial mod 10000) + (1 + int k)) mod 10000"
        using s' ret by (simp add: add.assoc)
      also have "\<dots> = (serial + (1 + int k)) mod 10000"
        by (rule mod_add_left_eq)
      finally show ?thesis by (simp add: add.commute add.left_commute)
    qed
    ultimately show ?thesis using g gs Suc by simp
  qed
qed

lemma getSerials_length: "length (fst (getSerials cs serial)) = length cs"
proof (induction cs arbitrary: serial)
  case Nil
  then show ?case by simp
next
  case (Cons c cs)
  obtain ret this' serial' where g: "getSerial c serial = (ret, this', serial')"
    by (cases "getSerial c serial") auto
  obtain rets serial'' where gs: "getSerials cs serial' = (rets, serial'')"
    by (cases "getSerials cs serial'") auto
  from Cons.IH [of serial'] gs have "length rets = length cs" by simp
  with g gs show ?case by simp
qed

lemma getSerials_distinct:
  assumes "1 \<le> serial" "serial \<le> 10000" "length cs \<le> 10000"
  shows "distinct (fst (getSerials cs serial))"
proof -
  let ?rs = "fst (getSerials cs serial)"
  have "?rs ! i \<noteq> ?rs ! j" if "i < j" "j < length cs" for i j
  proof
    assume eq: "?rs ! i = ?rs ! j"
    from that have i: "i < length cs" by simp
    from eq getSerials_nth [OF assms(1,2) i] getSerials_nth [OF assms(1,2) that(2)]
    have "(serial + int i) mod 10000 = (serial + int j) mod 10000" by simp
    then have "(10000::int) dvd (serial + int j) - (serial + int i)"
      by (metis mod_eq_dvd_iff)
    then have "(10000::int) dvd int j - int i" by simp
    moreover have "0 < int j - int i" "int j - int i < 10000"
      using that assms(3) by simp_all
    ultimately show False
      by (meson zdvd_not_zless)
  qed
  then have "\<forall>i j. i < j \<and> j < length ?rs \<longrightarrow> ?rs ! i \<noteq> ?rs ! j"
    by (simp add: getSerials_length)
  then show ?thesis
    by (metis distinct_conv_nth nat_neq_iff)
qed

lemma getSerials_in_range:
  assumes "1 \<le> serial" "serial \<le> 10000"
  shows "\<forall>r \<in> set (fst (getSerials cs serial)). 1 \<le> r \<and> r \<le> 10000"
  using assms
proof (induction cs arbitrary: serial)
  case Nil
  then show ?case by simp
next
  case (Cons c cs)
  obtain ret this' serial' where g: "getSerial c serial = (ret, this', serial')"
    by (cases "getSerial c serial") auto
  have s': "serial' = ret"
    using getSerial_counter [of c serial] g by simp
  have r: "1 \<le> ret" "ret \<le> 10000"
    using getSerial_range [OF Cons.prems, of c] g by simp_all
  obtain rets serial'' where gs: "getSerials cs serial' = (rets, serial'')"
    by (cases "getSerials cs serial'") auto
  from Cons.IH [of serial'] r s' gs have "\<forall>r \<in> set rets. 1 \<le> r \<and> r \<le> 10000"
    by simp
  with g gs r show ?case by simp
qed

text \<open>
  C2 (as stated): \<open>getSerial\<close> returns the existing serial of a command that already has
  one. It does not: a command carrying serial 7, asked while the counter is at its initial
  value 1, gets 2.
\<close>

theorem getSerial_assigned_counterexample:
  "mSerial (set_mSerial 7 cCmd_default) \<noteq> -1 \<and>
   fst (getSerial (set_mSerial 7 cCmd_default) serial_initial) \<noteq>
     mSerial (set_mSerial 7 cCmd_default)"
  by (simp add: getSerial_def set_mSerial_def serial_initial_def Let_def)

text \<open>
  C2 (amended): \<open>getSerial\<close> never reads or writes the serial field of the command; every
  call, whatever the command holds, hands out the next value of the process-wide counter
  (the successor of the counter, 1 after 10000) and leaves the command as it was. Started
  from a counter the process can reach, every serial handed out lies in 1..10000, and the
  serials of up to 10000 calls in a row (the lock orders concurrent callers into such a
  row) are pairwise different.
\<close>

theorem getSerial_allocates:
  assumes "serial = serial_after n" "length cs \<le> 10000"
  shows "fst (getSerial c serial) = (if serial = 10000 then 1 else serial + 1)
       \<and> fst (snd (getSerial c serial)) = c
       \<and> snd (snd (getSerial c serial)) = fst (getSerial c serial)
       \<and> 1 \<le> fst (getSerial c serial) \<and> fst (getSerial c serial) \<le> 10000
       \<and> (\<forall>r \<in> set (fst (getSerials cs serial)). 1 \<le> r \<and> r \<le> 10000)
       \<and> distinct (fst (getSerials cs serial))"
proof -
  have r: "1 \<le> serial" "serial \<le> 10000"
    using assms(1) serial_after_range [of n] by simp_all
  have a: "fst (getSerial c serial) = (if serial = 10000 then 1 else serial + 1)"
    using r by (simp add: getSerial_def Let_def)
  have b: "fst (snd (getSerial c serial)) = c"
    by (simp add: getSerial_def Let_def)
  show ?thesis
    using a b getSerial_counter [of c serial] getSerial_range [OF r, of c]
      getSerials_in_range [OF r, of cs] getSerials_distinct [OF r assms(2)]
    by simp
qed

theorem getSerial_allocates_witness:
  "fst (getSerial (set_mSerial 7 cCmd_default) (serial_after 0)) = 2
   \<and> fst (snd (getSerial (set_mSerial 7 cCmd_default) (serial_after 0))) = set_mSerial 7 cCmd_default
   \<and> fst (getSerials [cCmd_default, set_mSerial 7 cCmd_default, cCmd_default] (serial_after 0)) = [2, 3, 4]
   \<and> distinct (fst (getSerials [cCmd_default, set_mSerial 7 cCmd_default, cCmd_default] (serial_after 0)))"
  using getSerial_allocates [of "serial_after 0" 0
      "[cCmd_default, set_mSerial 7 cCmd_default, cCmd_default]" "set_mSerial 7 cCmd_default"]
  by (simp add: getSerial_def serial_initial_def Let_def)

section \<open>Unfolding the concrete engines\<close>

lemmas engine_defs =
  engine_connected_def engine_new_def cCECRemote_new_def serial_initial_def
  CEC_USER_CONTROL_CODE_UNKNOWN_def CECDEVICE_UNKNOWN_def CEC_OPCODE_NONE_def
  cCmd_simple_def cCmd_opcode_def cCmd_default_def cCECDevice_default_def device_2000_def
  Esyslog_def Isyslog_def Dsyslog_def lib_call_def PushCmd_def

section \<open>Submission\<close>

lemma PushCmdQueue_append:
  "mCECAdapter s \<noteq> None \<Longrightarrow> PushCmdQueue cmdList s = s\<lparr>mWorkerQueue := mWorkerQueue s @ cmdList\<rparr>"
proof -
  have "foldl (\<lambda>q i. q @ [i]) q cmdList = q @ cmdList" for q :: "cCmd list"
    by (induction cmdList arbitrary: q) simp_all
  then show "mCECAdapter s \<noteq> None \<Longrightarrow> ?thesis"
    by (auto simp add: PushCmdQueue_def)
qed

text \<open>
  C10: when the adapter handle is null, \<open>PushCmdQueue\<close> logs an error and returns with
  both queues as they were; the state it leaves is the state it leaves for the empty list,
  so whatever happens later happens as if no command had been handed over (the list is
  dropped, not kept for later). \<open>PushCmd\<close> appends its command to the worker queue in
  the same state.
\<close>

theorem PushCmdQueue_disconnected_drops:
  assumes "mCECAdapter s = None"
  shows "PushCmdQueue cmdList s = s\<lparr>logs := logs s @ [Elog ''PushCmdQueue CEC Adapter disconnected'']\<rparr>
       \<and> mWorkerQueue (PushCmdQueue cmdList s) = mWorkerQueue s
       \<and> mExecQueue (PushCmdQueue cmdList s) = mExecQueue s
       \<and> run evs (PushCmdQueue cmdList s) = run evs (PushCmdQueue [] s)
       \<and> mWorkerQueue (PushCmd cmd s) = mWorkerQueue s @ [cmd]"
  using assms by (simp add: PushCmdQueue_def Esyslog_def PushCmd_def)

text \<open>C10, at a new engine (adapter null) and a list of two commands.\<close>

theorem PushCmdQueue_disconnected_drops_witness:
  "mCECAdapter engine_new = None
   \<and> mWorkerQueue (PushCmdQueue [poweron_unresolved, cCmd_simple CEC_MAKEACTIVE (-1) None []] engine_new) = []
   \<and> mWorkerQueue (PushCmd poweron_unresolved engine_new) = [poweron_unresolved]"
  using PushCmdQueue_disconnected_drops [of engine_new
      "[poweron_unresolved, cCmd_simple CEC_MAKEACTIVE (-1) None []]" "[]" poweron_unresolved]
  by (simp add: engine_new_def cCECRemote_new_def)

text \<open>
  C9: \<open>PushWaitCmd\<close> appends the command, with its new serial, to the exec queue and
  leaves the worker queue alone exactly when the engine is inside \<open>Exec\<close> and the
  command is a connect or a disconnect; in every other case it appends the command to the
  worker queue and leaves the exec queue alone.
\<close>

theorem PushWaitCmd_routing:
  "(mInExec s \<and> (mCmd cmd = CEC_CONNECT \<or> mCmd cmd = CEC_DISCONNECT) \<longrightarrow>
      mExecQueue (PushWaitCmd cmd s) =
        mExecQueue s @ [set_mSerial (fst (getSerial cmd (getSerial_serial s))) cmd]
      \<and> mWorkerQueue (PushWaitCmd cmd s) = mWorkerQueue s)
   \<and> (\<not> (mInExec s \<and> (mCmd cmd = CEC_CONNECT \<or> mCmd cmd = CEC_DISCONNECT)) \<longrightarrow>
      mWorkerQueue (PushWaitCmd cmd s) =
        mWorkerQueue s @ [set_mSerial (fst (getSerial cmd (getSerial_serial s))) cmd]
      \<and> mExecQueue (PushWaitCmd cmd s) = mExecQueue s)"
  by (simp add: PushWaitCmd_def getSerial_def set_mSerial_def Let_def)

text \<open>
  C9, at three inputs: a connect inside exec, a power-on inside exec, a connect outside
  exec.
\<close>

theorem PushWaitCmd_routing_witness:
  "mExecQueue (PushWaitCmd (cCmd_simple CEC_CONNECT (-1) None []) (engine_connected\<lparr>mInExec := True\<rparr>))
     = [set_mSerial 2 (cCmd_simple CEC_CONNECT (-1) None [])]
   \<and> mWorkerQueue (PushWaitCmd (cCmd_simple CEC_CONNECT (-1) None []) (engine_connected\<lparr>mInExec := True\<rparr>))
     = []
   \<and> mWorkerQueue (PushWaitCmd poweron_unresolved (engine_connected\<lparr>mInExec := True\<rparr>))
     = [set_mSerial 2 poweron_unresolved]
   \<and> mWorkerQueue (PushWaitCmd (cCmd_simple CEC_CONNECT (-1) None []) engine_connected)
     = [set_mSerial 2 (cCmd_simple CEC_CONNECT (-1) None [])]"
  using PushWaitCmd_routing [of "engine_connected\<lparr>mInExec := True\<rparr>" "cCmd_simple CEC_CONNECT (-1) None []"]
    PushWaitCmd_routing [of "engine_connected\<lparr>mInExec := True\<rparr>" poweron_unresolved]
    PushWaitCmd_routing [of engine_connected "cCmd_simple CEC_CONNECT (-1) None []"]
  by (simp add: engine_defs poweron_unresolved_def getSerial_def Let_def)

section \<open>Device resolution\<close>

text \<open>
  C7 (as stated): every resolution of a descriptor whose address is cached returns the
  cached address. It does not when the adapter handle is null: \<open>getLogical\<close> tests the
  handle first and returns the unknown sentinel.
\<close>

theorem getLogical_cached_counterexample:
  "mLogicalAddressUsed ((device_2000 4)\<lparr>mLogicalAddressUsed := 4\<rparr>) \<noteq> CECDEVICE_UNKNOWN
   \<and> fst (getLogical env_bus ((device_2000 4)\<lparr>mLogicalAddressUsed := 4\<rparr>) engine_new)
       \<noteq> mLogicalAddressUsed ((device_2000 4)\<lparr>mLogicalAddressUsed := 4\<rparr>)"
  by (simp add: getLogical_def engine_defs)

text \<open>
  C7 (amended): for a descriptor whose used logical address is cached, every call of
  \<open>getLogical\<close> made while the adapter handle is not null returns the cached address,
  makes no library call and leaves descriptor and engine unchanged; a call made while the
  handle is null returns the unknown sentinel, logs an error, makes no library call either
  and leaves the descriptor (and so the cache) unchanged. The descriptor being unchanged,
  this holds for every later call as well.
\<close>

theorem getLogical_cached:
  assumes "mLogicalAddressUsed dev \<noteq> CECDEVICE_UNKNOWN"
  shows "getLogical e dev s =
           (if mCECAdapter s = None
            then (CECDEVICE_UNKNOWN, dev, s\<lparr>logs := logs s @ [Elog ''getLogical CEC Adapter disconnected'']\<rparr>)
            else (mLogicalAddressUsed dev, dev, s))"
  using assms by (simp add: getLogical_def Esyslog_def)

text \<open>C7 (amended), at a descriptor with cached address 4, connected and not.\<close>

theorem getLogical_cached_witness:
  "getLogical env_silent ((device_2000 4)\<lparr>mLogicalAddressUsed := 4\<rparr>) engine_connected
     = (4, (device_2000 4)\<lparr>mLogicalAddressUsed := 4\<rparr>, engine_connected)
   \<and> fst (getLogical env_silent ((device_2000 4)\<lparr>mLogicalAddressUsed := 4\<rparr>) engine_new)
     = CECDEVICE_UNKNOWN"
  using getLogical_cached [of "(device_2000 4)\<lparr>mLogicalAddressUsed := 4\<rparr>" env_silent engine_connected]
    getLogical_cached [of "(device_2000 4)\<lparr>mLogicalAddressUsed := 4\<rparr>" env_silent engine_new]
  by (simp add: engine_defs)

text \<open>
  The scan of a list of slots among which no physical match is the configured address
  runs to the end and remembers the last physical match; a scan that meets the configured
  address at a physical match stops there.
\<close>

lemma physical_matches_used [simp]:
  "physical_matches e (dev\<lparr>mLogicalAddressUsed := a\<rparr>) js = physical_matches e dev js"
  by (simp add: physical_matches_def)

lemma replicate_snoc: "x # replicate n x = replicate n x @ [x]"
  by (induction n) simp_all

lemma getLogical_scan_no_exact:
  assumes "\<forall>j \<in> set (physical_matches e dev js). int j \<noteq> mLogicalAddressDefined dev"
  shows "getLogical_scan e js dev found s =
           (None,
            (if physical_matches e dev js = [] then dev
             else dev\<lparr>mLogicalAddressUsed := int (last (physical_matches e dev js))\<rparr>),
            (if physical_matches e dev js = [] then found
             else int (last (physical_matches e dev js))),
            s\<lparr>calls := calls s @ queried e js,
              logs := logs s @ scan_log (length (physical_matches e dev js))\<rparr>)"
  using assms
proof (induction js arbitrary: dev found s)
  case Nil
  then show ?case by (simp add: physical_matches_def queried_def scan_log_def)
next
  case (Cons j js)
  show ?case
  proof (cases "GetActiveDevices_result e j")
    case False
    then have pm: "physical_matches e dev (j # js) = physical_matches e dev js"
      by (simp add: physical_matches_def)
    have q: "queried e (j # js) = queried e js"
      using False by (simp add: queried_def)
    from Cons.prems pm have "\<forall>j \<in> set (physical_matches e dev js). int j \<noteq> mLogicalAddressDefined dev"
      by simp
    from Cons.IH [OF this, of found s] False pm q show ?thesis by simp
  next
    case True
    note act = True
    show ?thesis
    proof (cases "mPhysicalAddress dev = GetDevicePhysicalAddress_result e (int j)")
      case False
      then have pm: "physical_matches e dev (j # js) = physical_matches e dev js"
        by (auto simp add: physical_matches_def)
      have q: "queried e (j # js) = Call_GetDevicePhysicalAddress (int j) # queried e js"
        using act by (simp add: queried_def)
      from Cons.prems pm have "\<forall>j \<in> set (physical_matches e dev js). int j \<noteq> mLogicalAddressDefined dev"
        by simp
      from Cons.IH [OF this, of found "lib_call (Call_GetDevicePhysicalAddress (int j)) s"]
        act False pm q
      show ?thesis by (simp add: lib_call_def Let_def)
    next
      case True
      then have pm: "physical_matches e dev (j # js) = j # physical_matches e dev js"
        using act by (simp add: physical_matches_def)
      have q: "queried e (j # js) = Call_GetDevicePhysicalAddress (int j) # queried e js"
        using act by (simp add: queried_def)
      from Cons.prems pm have nj: "int j \<noteq> mLogicalAddressDefined dev"
        and rest: "\<forall>j \<in> set (physical_matches e dev js). int j \<noteq> mLogicalAddressDefined dev"
        by simp_all
      let ?dev1 = "dev\<lparr>mLogicalAddressUsed := int j\<rparr>"
      let ?s2 = "Dsyslog ''Mapping Physical %04x->Logical %d''
                   (lib_call (Call_GetDevicePhysicalAddress (int j)) s)"
      from rest have "\<forall>k \<in> set (physical_matches e ?dev1 js). int k \<noteq> mLogicalAddressDefined ?dev1"
        by simp
      from Cons.IH [OF this, of "int j" ?s2] act True pm q nj
      show ?thesis
        by (simp add: lib_call_def Dsyslog_def Let_def scan_log_def replicate_snoc)
    qed
  qed
qed

lemma getLogical_scan_append:
  "getLogical_scan e (xs @ ys) dev found s =
     (case getLogical_scan e xs dev found s of
        (Some a, d, f, t) \<Rightarrow> (Some a, d, f, t)
      | (None, d, f, t) \<Rightarrow> getLogical_scan e ys d f t)"
  by (induction xs arbitrary: dev found s) (simp_all add: Let_def)

lemma getLogical_scan_exact:
  assumes "GetActiveDevices_result e j"
    and "GetDevicePhysicalAddress_result e (int j) = mPhysicalAddress dev"
    and "mLogicalAddressDefined dev = int j"
    and "\<forall>k \<in> set pre. k \<noteq> j"
  shows "getLogical_scan e (pre @ j # post) dev found s =
           (Some (int j), dev\<lparr>mLogicalAddressUsed := int j\<rparr>, int j,
            s\<lparr>calls := calls s @ queried e (pre @ [j]),
              logs := logs s @ scan_log (length (physical_matches e dev (pre @ [j])))\<rparr>)"
proof -
  have ne: "\<forall>k \<in> set (physical_matches e dev pre). int k \<noteq> mLogicalAddressDefined dev"
    using assms(3,4) by (auto simp add: physical_matches_def)
  have pm: "physical_matches e dev (pre @ [j]) = physical_matches e dev pre @ [j]"
    using assms(1,2) by (simp add: physical_matches_def)
  have q: "queried e (pre @ [j]) = queried e pre @ [Call_GetDevicePhysicalAddress (int j)]"
    using assms(1) by (simp add: queried_def)
  show ?thesis
    using assms(1,2,3) pm q
    by (simp add: getLogical_scan_append getLogical_scan_no_exact [OF ne] lib_call_def Dsyslog_def
        Let_def scan_log_def replicate_snoc [symmetric])
qed

text \<open>
  C6: resolution of an unresolved descriptor with a physical address, adapter open. If
  some active slot \<open>j\<close> has the device's physical address and is the configured logical
  address, \<open>j\<close> is returned and cached and only the active slots up to \<open>j\<close> have been
  asked for their physical address. If there are physical matches but none is the
  configured address, every active slot of 0..15 has been asked before the result, which
  is a physical match (the last one), is returned and cached.
\<close>

theorem getLogical_physical_scan:
  assumes "mCECAdapter s \<noteq> None"
    and "mLogicalAddressUsed dev = CECDEVICE_UNKNOWN"
    and "mPhysicalAddress dev \<noteq> 0"
  shows "(\<forall>j < 16. GetActiveDevices_result e j
              \<and> GetDevicePhysicalAddress_result e (int j) = mPhysicalAddress dev
              \<and> mLogicalAddressDefined dev = int j \<longrightarrow>
            getLogical e dev s =
              (int j, dev\<lparr>mLogicalAddressUsed := int j\<rparr>,
               s\<lparr>calls := calls s @ Call_GetActiveDevices # queried e [0..<Suc j],
                 logs := logs s @ scan_log (length (physical_matches e dev [0..<Suc j]))\<rparr>))
       \<and> (physical_matches e dev [0..<16] \<noteq> [] \<and>
          (\<forall>j \<in> set (physical_matches e dev [0..<16]). int j \<noteq> mLogicalAddressDefined dev) \<longrightarrow>
            getLogical e dev s =
              (int (last (physical_matches e dev [0..<16])),
               dev\<lparr>mLogicalAddressUsed := int (last (physical_matches e dev [0..<16]))\<rparr>,
               s\<lparr>calls := calls s @ Call_GetActiveDevices # queried e [0..<16],
                 logs := logs s @ scan_log (length (physical_matches e dev [0..<16]))\<rparr>))"
proof (intro conjI allI impI)
  fix j :: nat
  assume j: "j < 16"
    and ex: "GetActiveDevices_result e j
              \<and> GetDevicePhysicalAddress_result e (int j) = mPhysicalAddress dev
              \<and> mLogicalAddressDefined dev = int j"
  have "[0..<j + (16 - j)] = [0..<j] @ [j..<j + (16 - j)]"
    by (rule upt_add_eq_append) simp
  moreover have "[j..<16] = j # [Suc j..<16]"
    using j by (rule upt_conv_Cons)
  ultimately have split: "[0..<16] = [0..<j] @ j # [Suc j..<16]"
    using j by simp
  have pre: "\<forall>k \<in> set [0..<j]. k \<noteq> j" by simp
  have sc: "getLogical_scan e [0..<16] dev CECDEVICE_UNKNOWN (lib_call Call_GetActiveDevices s) =
           (Some (int j), dev\<lparr>mLogicalAddressUsed := int j\<rparr>, int j,
            (lib_call Call_GetActiveDevices s)\<lparr>calls := calls (lib_call Call_GetActiveDevices s) @ queried e ([0..<j] @ [j]),
              logs := logs (lib_call Call_GetActiveDevices s) @ scan_log (length (physical_matches e dev ([0..<j] @ [j])))\<rparr>)"
    unfolding split
    using getLogical_scan_exact [of e j dev "[0..<j]"] ex pre by blast
  show "getLogical e dev s =
              (int j, dev\<lparr>mLogicalAddressUsed := int j\<rparr>,
               s\<lparr>calls := calls s @ Call_GetActiveDevices # queried e [0..<Suc j],
                 logs := logs s @ scan_log (length (physical_matches e dev [0..<Suc j]))\<rparr>)"
    using assms sc by (auto simp add: getLogical_def lib_call_def)
next
  assume a: "physical_matches e dev [0..<16] \<noteq> [] \<and>
          (\<forall>j \<in> set (physical_matches e dev [0..<16]). int j \<noteq> mLogicalAddressDefined dev)"
  then have ne: "\<forall>j \<in> set (physical_matches e dev [0..<16]). int j \<noteq> mLogicalAddressDefined dev"
    by simp
  have nonneg: "int (last (physical_matches e dev [0..<16])) \<noteq> CECDEVICE_UNKNOWN"
    by (simp add: CECDEVICE_UNKNOWN_def)
  show "getLogical e dev s =
              (int (last (physical_matches e dev [0..<16])),
               dev\<lparr>mLogicalAddressUsed := int (last (physical_matches e dev [0..<16]))\<rparr>,
               s\<lparr>calls := calls s @ Call_GetActiveDevices # queried e [0..<16],
                 logs := logs s @ scan_log (length (physical_matches e dev [0..<16]))\<rparr>)"
    using assms a nonneg
    by (auto simp add: getLogical_def getLogical_scan_no_exact [OF ne] lib_call_def)
qed

text \<open>
  C6, on the bus where slots 4 and 5 both sit at 2.0.0.0: configured as 4 the device
  resolves to 4 and slot 5 is never asked; configured as 8 it resolves to 5 after all
  active slots were asked.
\<close>

theorem getLogical_physical_scan_witness:
  "getLogical env_bus (device_2000 4) engine_connected =
     (4, (device_2000 4)\<lparr>mLogicalAddressUsed := 4\<rparr>,
      engine_connected
        \<lparr>calls := [Call_GetActiveDevices, Call_GetDevicePhysicalAddress 0,
                   Call_GetDevicePhysicalAddress 4],
         logs := [Dlog ''Mapping Physical %04x->Logical %d'']\<rparr>)
   \<and> getLogical env_bus (device_2000 8) engine_connected =
     (5, (device_2000 8)\<lparr>mLogicalAddressUsed := 5\<rparr>,
      engine_connected
        \<lparr>calls := [Call_GetActiveDevices, Call_GetDevicePhysicalAddress 0,
                   Call_GetDevicePhysicalAddress 4, Call_GetDevicePhysicalAddress 5],
         logs := [Dlog ''Mapping Physical %04x->Logical %d'',
                  Dlog ''Mapping Physical %04x->Logical %d'']\<rparr>)"
proof -
  have h: "mCECAdapter engine_connected \<noteq> None"
    "mLogicalAddressUsed (device_2000 d) = CECDEVICE_UNKNOWN"
    "mPhysicalAddress (device_2000 d) \<noteq> 0" for d
    by (simp_all add: engine_defs)
  have q4: "queried env_bus [0..<Suc 4] =
              [Call_GetDevicePhysicalAddress 0, Call_GetDevicePhysicalAddress 4]"
    and q16: "queried env_bus [0..<16] =
              [Call_GetDevicePhysicalAddress 0, Call_GetDevicePhysicalAddress 4,
               Call_GetDevicePhysicalAddress 5]"
    by (simp_all add: queried_def env_bus_def env_silent_def upt_rec)
  have m4: "physical_matches env_bus (device_2000 4) [0..<Suc 4] = [4]"
    and m16: "physical_matches env_bus (device_2000 8) [0..<16] = [4, 5]"
    by (simp_all add: physical_matches_def env_bus_def env_silent_def device_2000_def upt_rec)
  have e4: "GetActiveDevices_result env_bus 4
            \<and> GetDevicePhysicalAddress_result env_bus (int 4) = mPhysicalAddress (device_2000 4)
            \<and> mLogicalAddressDefined (device_2000 4) = int 4"
    by (simp add: env_bus_def env_silent_def device_2000_def)
  have n8: "\<forall>j \<in> set (physical_matches env_bus (device_2000 8) [0..<16]).
              int j \<noteq> mLogicalAddressDefined (device_2000 8)"
    unfolding m16 by (simp add: device_2000_def)
  from getLogical_physical_scan [where s = engine_connected and dev = "device_2000 4"
      and e = env_bus, OF h, THEN conjunct1, rule_format, of 4] e4
  have r4: "getLogical env_bus (device_2000 4) engine_connected =
              (int 4, (device_2000 4)\<lparr>mLogicalAddressUsed := int 4\<rparr>,
               engine_connected\<lparr>calls := calls engine_connected @ Call_GetActiveDevices # queried env_bus [0..<Suc 4],
                 logs := logs engine_connected @ scan_log (length (physical_matches env_bus (device_2000 4) [0..<Suc 4]))\<rparr>)"
    by simp
  from getLogical_physical_scan [where s = engine_connected and dev = "device_2000 8"
      and e = env_bus, OF h, THEN conjunct2] n8 m16
  have r8: "getLogical env_bus (device_2000 8) engine_connected =
              (int (last (physical_matches env_bus (device_2000 8) [0..<16])),
               (device_2000 8)\<lparr>mLogicalAddressUsed := int (last (physical_matches env_bus (device_2000 8) [0..<16]))\<rparr>,
               engine_connected\<lparr>calls := calls engine_connected @ Call_GetActiveDevices # queried env_bus [0..<16],
                 logs := logs engine_connected @ scan_log (length (physical_matches env_bus (device_2000 8) [0..<16]))\<rparr>)"
    by simp
  show ?thesis
    unfolding r4 r8 q4 q16 m4 m16
    by (simp add: scan_log_def engine_defs)
qed

section \<open>Connect and Disconnect\<close>

lemma Connect_connected:
  "mCECAdapter s \<noteq> None \<Longrightarrow> Connect e s = s\<lparr>logs := logs s @ [Dlog ''cCECRemote::Connect'']\<rparr>"
  by (simp add: Connect_def Dsyslog_def Let_def)

lemma Disconnect_disconnected:
  "mCECAdapter s = None \<Longrightarrow> Disconnect s = s\<lparr>logs := logs s @ [Dlog ''cCECRemote::Disconnect'']\<rparr>"
  by (cases s) (simp add: Disconnect_def Dsyslog_def Let_def)

text \<open>
  C8: while the adapter handle is not null, \<open>Connect\<close>, and the dispatch of a connect
  command in \<open>Action\<close> and in \<open>Exec\<close>, change nothing but the log: the handle stays, no
  library call is made, so no second handle is created. While the handle is null,
  \<open>Disconnect\<close>, and the dispatch of a disconnect command, change nothing but the log
  either, and what they log is a debug line, not an error.
\<close>

theorem connect_disconnect_idempotent:
  "(mCECAdapter s \<noteq> None \<longrightarrow>
      Connect e s = s\<lparr>logs := logs s @ [Dlog ''cCECRemote::Connect'']\<rparr>
    \<and> (mCmd cmd = CEC_CONNECT \<longrightarrow>
         Action_switch e cmd s =
           (cmd, s\<lparr>logs := logs s @ [Ilog ''cCECRemote connect'', Dlog ''cCECRemote::Connect'']\<rparr>)
       \<and> Exec_switch e cmd s =
           s\<lparr>logs := logs s @ [Dlog ''cCECRemote Exec connect'', Dlog ''cCECRemote::Connect'']\<rparr>))
   \<and> (mCECAdapter s = None \<longrightarrow>
      Disconnect s = s\<lparr>logs := logs s @ [Dlog ''cCECRemote::Disconnect'']\<rparr>
    \<and> (mCmd cmd = CEC_DISCONNECT \<longrightarrow>
         Action_switch e cmd s =
           (cmd, s\<lparr>logs := logs s @ [Ilog ''cCECRemote disconnect'', Dlog ''cCECRemote::Disconnect'']\<rparr>)
       \<and> Exec_switch e cmd s =
           s\<lparr>logs := logs s @ [Dlog ''cCECRemote Exec disconnect'', Dlog ''cCECRemote::Disconnect'']\<rparr>))"
  by (simp add: Connect_connected Disconnect_disconnected Action_switch_def Exec_switch_def
      Isyslog_def Dsyslog_def)

text \<open>C8, at a connect command on the connected engine and a disconnect on the new one.\<close>

theorem connect_disconnect_idempotent_witness:
  "Action_switch env_bus (cCmd_simple CEC_CONNECT (-1) None []) engine_connected =
     (cCmd_simple CEC_CONNECT (-1) None [],
      engine_connected\<lparr>logs := [Ilog ''cCECRemote connect'', Dlog ''cCECRemote::Connect'']\<rparr>)
   \<and> Action_switch env_bus (cCmd_simple CEC_DISCONNECT (-1) None []) engine_new =
     (cCmd_simple CEC_DISCONNECT (-1) None [],
      engine_new\<lparr>logs := [Ilog ''cCECRemote disconnect'', Dlog ''cCECRemote::Disconnect'']\<rparr>)"
  using connect_disconnect_idempotent [of engine_connected env_bus "cCmd_simple CEC_CONNECT (-1) None []"]
    connect_disconnect_idempotent [of engine_new env_bus "cCmd_simple CEC_DISCONNECT (-1) None []"]
  by (simp add: engine_defs)

section \<open>Power commands\<close>

text \<open>
  A wait for a power status asks the bus at least once. So whenever the device of a
  power-on or power-off command resolves to the unknown sentinel while the adapter is
  open, the dispatch makes no power request and then asks for the power status of the
  unknown address.
\<close>

lemma WaitForPowerStatus_loop_calls:
  "\<exists>n. calls (WaitForPowerStatus_loop e addr newstatus cnt s) =
         calls s @ Call_GetDevicePowerStatus addr # replicate n (Call_GetDevicePowerStatus addr)"
proof (induction e addr newstatus cnt s rule: WaitForPowerStatus_loop.induct)
  case (1 e addr newstatus cnt s)
  let ?s1 = "lib_call (Call_GetDevicePowerStatus addr) s"
  show ?case
  proof (cases "GetDevicePowerStatus_result e addr cnt \<noteq> newstatus \<and> cnt + 1 < 50 \<and>
                GetDevicePowerStatus_result e addr cnt \<noteq> CEC_POWER_STATUS_UNKNOWN")
    case True
    from 1 [OF refl refl refl True] obtain n where
      "calls (WaitForPowerStatus_loop e addr newstatus (cnt + 1) ?s1) =
         calls ?s1 @ Call_GetDevicePowerStatus addr # replicate n (Call_GetDevicePowerStatus addr)"
      by blast
    then have "calls (WaitForPowerStatus_loop e addr newstatus cnt s) =
         calls s @ Call_GetDevicePowerStatus addr # replicate (Suc n) (Call_GetDevicePowerStatus addr)"
      using True by (subst WaitForPowerStatus_loop.simps) (simp add: Let_def lib_call_def)
    then show ?thesis by blast
  next
    case False
    then have "calls (WaitForPowerStatus_loop e addr newstatus cnt s) =
         calls s @ Call_GetDevicePowerStatus addr # replicate 0 (Call_GetDevicePowerStatus addr)"
      by (subst WaitForPowerStatus_loop.simps) (auto simp add: Let_def lib_call_def)
    then show ?thesis by blast
  qed
qed

lemma power_command_unresolved:
  assumes "mCECAdapter s \<noteq> None"
    and "mCmd cmd = CEC_POWERON \<or> mCmd cmd = CEC_POWEROFF"
    and "getLogical e (mDevice cmd)
           (Isyslog (if mCmd cmd = CEC_POWERON then ''Power on'' else ''Power off'') s)
         = (CECDEVICE_UNKNOWN, dev, s1)"
  shows "\<exists>n. calls (snd (Action_switch e cmd s)) =
           calls s1 @ Call_GetDevicePowerStatus CECDEVICE_UNKNOWN #
             replicate n (Call_GetDevicePowerStatus CECDEVICE_UNKNOWN)"
proof -
  from assms(2) show ?thesis
  proof
    assume k: "mCmd cmd = CEC_POWERON"
    with assms(3) have g: "getLogical e (mDevice cmd) (Isyslog ''Power on'' s) = (CECDEVICE_UNKNOWN, dev, s1)"
      by simp
    have "snd (Action_switch e cmd s) =
            WaitForPowerStatus_loop e CECDEVICE_UNKNOWN CEC_POWER_STATUS_ON 0 s1"
      using assms(1) by (simp add: Action_switch_def k g WaitForPowerStatus_def)
    then show ?thesis
      using WaitForPowerStatus_loop_calls [of e CECDEVICE_UNKNOWN CEC_POWER_STATUS_ON 0 s1] by simp
  next
    assume k: "mCmd cmd = CEC_POWEROFF"
    with assms(3) have g: "getLogical e (mDevice cmd) (Isyslog ''Power off'' s) = (CECDEVICE_UNKNOWN, dev, s1)"
      by simp
    have "snd (Action_switch e cmd s) =
            WaitForPowerStatus_loop e CECDEVICE_UNKNOWN CEC_POWER_STATUS_STANDBY 0 s1"
      using assms(1) by (simp add: Action_switch_def k g WaitForPowerStatus_def)
    then show ?thesis
      using WaitForPowerStatus_loop_calls [of e CECDEVICE_UNKNOWN CEC_POWER_STATUS_STANDBY 0 s1] by simp
  qed
qed

text \<open>
  C1 (the code differs): a power-on command whose device resolves to the unknown sentinel
  makes no power request, but it does query the power status. On the silent bus the
  device at 2.0.0.0 with configured address 4 is not resolved (first equation), and the
  dispatch of the command ends with \<open>GetDevicePowerStatus\<close> for the unknown address:
  in \<open>Action\<close> the \<open>else\<close> branch with \<open>WaitForPowerStatus\<close> is also the branch of an
  unresolved address.
\<close>

theorem poweron_unresolved_polls_status:
  "getLogical env_silent (mDevice poweron_unresolved)
      (Isyslog ''Power on'' (Dsyslog ''(%d) Action %d Val %d'' engine_connected))
     = (CECDEVICE_UNKNOWN, mDevice poweron_unresolved,
        engine_connected
          \<lparr>calls := [Call_GetActiveDevices, Call_GetLogicalAddresses, Call_PollDevice 4],
           logs := [Dlog ''(%d) Action %d Val %d'', Ilog ''Power on'',
                    Elog ''Logical address not available'']\<rparr>)
   \<and> calls (worker_step env_silent (PushCmd poweron_unresolved engine_connected))
     = [Call_GetActiveDevices, Call_GetLogicalAddresses, Call_PollDevice 4,
        Call_GetDevicePowerStatus CECDEVICE_UNKNOWN]"
  by (simp add: poweron_unresolved_def engine_defs worker_step_def
      Action_iteration_def WaitCmd_def Action_switch_def getLogical_def env_silent_def
      WaitForPowerStatus_def WaitForPowerStatus_loop.simps Action_after_def Action_finished_def
      set_mDevice_def Let_def upt_rec)

section \<open>The callbacks\<close>

text \<open>
  C5 (as stated): every callback appends a command to the normal queue. The alert of a
  lost connection puts its reconnect command in front of the queued command, not behind
  it; inside exec it leaves the normal queue alone; and the log callback queues nothing.
\<close>

theorem callback_append_counterexample:
  "mWorkerQueue (run_callback env_bus (Alert CEC_ALERT_CONNECTION_LOST)
                  (PushCmd poweron_unresolved engine_connected))
     = [cCmd_simple CEC_RECONNECT (-1) None [], poweron_unresolved]
   \<and> mWorkerQueue (run_callback env_bus (Alert CEC_ALERT_CONNECTION_LOST)
                  (PushCmd poweron_unresolved engine_connected))
     \<noteq> mWorkerQueue (PushCmd poweron_unresolved engine_connected)
         @ [cCmd_simple CEC_RECONNECT (-1) None []]
   \<and> mWorkerQueue (run_callback env_bus (Alert CEC_ALERT_CONNECTION_LOST)
                  (PushCmd poweron_unresolved (engine_connected\<lparr>mInExec := True\<rparr>)))
     = mWorkerQueue (PushCmd poweron_unresolved (engine_connected\<lparr>mInExec := True\<rparr>))
   \<and> mWorkerQueue (run_callback env_bus (LogMessage 1 ''connection opened'')
                  (PushCmd poweron_unresolved engine_connected))
     = mWorkerQueue (PushCmd poweron_unresolved engine_connected)"
  by (simp add: CecAlertCallback_def CecLogMessageCallback_def Reconnect_def Let_def
      poweron_unresolved_def engine_defs)

text \<open>
  C5 (amended): no callback changes the adapter handle, the place of the worker, the
  exec flag or the published serial, and the only library call one makes is \<open>ToString\<close>
  for the log line of the command callback. A callback queues at most one command: the
  key-press callback appends a key-press command to the normal queue when the key code is
  in range and is not a repetition; the command callback appends a bus command to the
  normal queue unless the handle is null; the alert of a lost connection puts a reconnect
  command at the front of the normal queue, or at the front of the exec queue while the
  engine is inside exec; every other callback leaves both queues alone.
\<close>

theorem callbacks_only_enqueue:
  "mCECAdapter (run_callback e cb s) = mCECAdapter s
   \<and> worker (run_callback e cb s) = worker s
   \<and> mInExec (run_callback e cb s) = mInExec s
   \<and> mProcessedSerial (run_callback e cb s) = mProcessedSerial s
   \<and> calls (run_callback e cb s) =
       (case cb of
          CommandReceived opcode initiator destination \<Rightarrow>
            if mCECAdapter s = None then calls s else calls s @ [Call_ToString]
        | _ \<Rightarrow> calls s)
   \<and> mWorkerQueue (run_callback e cb s) =
       (case cb of
          KeyPress keycode duration \<Rightarrow>
            if (keycode \<ge> 0 \<and> keycode \<le> CEC_USER_CONTROL_CODE_MAX e) \<and>
               (duration = 0 \<or> keycode \<noteq> lastkey s)
            then mWorkerQueue s @ [cCmd_simple CEC_KEYRPRESS keycode None []]
            else mWorkerQueue s
        | CommandReceived opcode initiator destination \<Rightarrow>
            if mCECAdapter s = None then mWorkerQueue s
            else mWorkerQueue s @ [cCmd_opcode CEC_COMMAND opcode initiator]
        | Alert type \<Rightarrow>
            if type = CEC_ALERT_CONNECTION_LOST \<and> \<not> mInExec s
            then cCmd_simple CEC_RECONNECT (-1) None [] # mWorkerQueue s
            else mWorkerQueue s
        | _ \<Rightarrow> mWorkerQueue s)
   \<and> mExecQueue (run_callback e cb s) =
       (case cb of
          Alert type \<Rightarrow>
            if type = CEC_ALERT_CONNECTION_LOST \<and> mInExec s
            then cCmd_simple CEC_RECONNECT (-1) None [] # mExecQueue s
            else mExecQueue s
        | _ \<Rightarrow> mExecQueue s)"
proof (cases cb)
  case (Alert type)
  then show ?thesis
    by (cases type)
       (simp_all add: CecAlertCallback_def Reconnect_def Let_def Dsyslog_def Esyslog_def
          Isyslog_def)
qed (simp_all add: CecKeyPressCallback_def CecCommandCallback_def CecLogMessageCallback_def
      CECSourceActivatedCallback_def CECConfigurationCallback_def PushCmd_def
      Dsyslog_def Esyslog_def lib_call_def Let_def)

text \<open>C5 (amended), at a lost connection, a key press and a received command.\<close>

theorem callbacks_only_enqueue_witness:
  "mCECAdapter (run_callback env_bus (Alert CEC_ALERT_CONNECTION_LOST)
                  (PushCmd poweron_unresolved engine_connected)) = Some 1
   \<and> mWorkerQueue (run_callback env_bus (Alert CEC_ALERT_CONNECTION_LOST)
                  (PushCmd poweron_unresolved engine_connected))
     = [cCmd_simple CEC_RECONNECT (-1) None [], poweron_unresolved]
   \<and> mWorkerQueue (run_callback env_bus (KeyPress 68 0) engine_connected)
     = [cCmd_simple CEC_KEYRPRESS 68 None []]
   \<and> mWorkerQueue (run_callback env_bus (CommandReceived 54 0 15) engine_connected)
     = [cCmd_opcode CEC_COMMAND 54 0]"
  using callbacks_only_enqueue [of env_bus "Alert CEC_ALERT_CONNECTION_LOST"
      "PushCmd poweron_unresolved engine_connected"]
    callbacks_only_enqueue [of env_bus "KeyPress 68 0" engine_connected]
    callbacks_only_enqueue [of env_bus "CommandReceived 54 0 15" engine_connected]
  by (simp add: engine_defs env_bus_def env_silent_def)

section \<open>What the operations leave alone\<close>


lemma quiet_trans: "quiet a b \<Longrightarrow> quiet b c \<Longrightarrow> quiet a c"
  by (auto simp add: quiet_def grows_def)























section \<open>Publication of serials\<close>























section \<open>Order of dispatch\<close>














end
